theory Spec2Isabelle
  imports Main
begin

section \<open>The Fetcher: \<open>fetchCatFact\<close> (src/src/App.js, lines 8-14)\<close>

text \<open>
  \<^verbatim>\<open>
  const fetchCatFact = async () => {
    const response = await fetch('https://catfact.ninja/fact');
    if (!response.ok) {
      throw new Error('Failed to fetch cat fact');
    }
    return response.json();
  };
  \<close>
  The function is asynchronous: whatever goes wrong inside it reaches the caller as a
  rejected promise. The model returns a sum, \<open>Inl\<close> for a rejection and \<open>Inr\<close> for the
  value the promise resolves with.
\<close>

subsection \<open>JavaScript errors and the Fetch API's answers\<close>

text \<open>A JavaScript error object, as far as the program reads it: its name and its message.\<close>

datatype js_error = JsError (name: string) (message: string)

text \<open>
  What \<open>response.json()\<close> settles with: the decoded payload, a rejection because the body
  is not JSON (a \<open>SyntaxError\<close>), or a rejection because the body could not be read to its
  end (the connection broke while the body was streamed).
\<close>

datatype 'v json_result = Parsed 'v | Malformed js_error | BodyLost js_error

text \<open>
  A response of the Fetch API. The source reads \<open>response.ok\<close> and calls
  \<open>response.json()\<close>; \<open>ok\<close> is the API's getter, true for a status from 200 to 299.
\<close>

record 'v response =
  http_status :: nat
  statusText :: string
  json :: "'v json_result"

definition ok :: "'v response \<Rightarrow> bool" where
  "ok r = (200 \<le> http_status r \<and> http_status r \<le> 299)"

text \<open>
  \<open>fetch(url)\<close> rejects when no response arrives (DNS, connection, CORS), and resolves
  with a response for every HTTP status.
\<close>

datatype 'v fetch_outcome = Rejected js_error | Responded "'v response"

text \<open>
  The network decides the outcome of a request from the requests sent so far, the new one
  last. The log of requests is the state \<open>fetch\<close> changes.
\<close>

type_synonym 'v network = "string list \<Rightarrow> 'v fetch_outcome"

definition fetch :: "'v network \<Rightarrow> string \<Rightarrow> string list \<Rightarrow> 'v fetch_outcome \<times> string list" where
  "fetch net url log = (net (log @ [url]), log @ [url])"

subsection \<open>The failures of a run\<close>

text \<open>
  Every way the promise of \<open>fetchCatFact\<close> rejects, by the place that rejects it:
  the awaited \<open>fetch\<close> (line 9) or the body read of \<open>response.json()\<close> (line 13) losing the
  connection, the \<open>throw\<close> of line 11, and \<open>response.json()\<close> (line 13) refusing the body.
\<close>

datatype failure = TransportFailed js_error | StatusNotOk js_error | DecodeFailed js_error

fun thrown :: "failure \<Rightarrow> js_error" where
  "thrown (TransportFailed e) = e"
| "thrown (StatusNotOk e) = e"
| "thrown (DecodeFailed e) = e"

definition catFactUrl :: string where
  "catFactUrl = ''https://catfact.ninja/fact''"

definition fetchCatFact :: "'v network \<Rightarrow> string list \<Rightarrow> (failure + 'v) \<times> string list" where
  "fetchCatFact net log =
     (case fetch net catFactUrl log of
        (Rejected e, log') \<Rightarrow> (Inl (TransportFailed e), log')
      | (Responded response, log') \<Rightarrow>
          if \<not> ok response then
            (Inl (StatusNotOk (JsError ''Error'' ''Failed to fetch cat fact'')), log')
          else
            (case json response of
               Parsed v \<Rightarrow> (Inr v, log')
             | Malformed e \<Rightarrow> (Inl (DecodeFailed e), log')
             | BodyLost e \<Rightarrow> (Inl (TransportFailed e), log')))"

subsection \<open>The spec's error kinds and the cases of a fetch outcome\<close>

text \<open>
  The source has no error classes of its own: every failure is a plain JavaScript error.
  The spec (section 7) names two kinds, NetworkError for a transport or HTTP failure and
  DecodeError for a malformed payload; \<open>kind\<close> sorts the failures of a run into them.
\<close>

datatype error_kind = NetworkError | DecodeError

fun kind :: "failure \<Rightarrow> error_kind" where
  "kind (TransportFailed e) = NetworkError"
| "kind (StatusNotOk e) = NetworkError"
| "kind (DecodeFailed e) = DecodeError"

text \<open>The transport fails: no response arrives, or the body of the response is lost.\<close>

definition transport_failed :: "'v fetch_outcome \<Rightarrow> bool" where
  "transport_failed out =
     (case out of
        Rejected e \<Rightarrow> True
      | Responded r \<Rightarrow> (case json r of BodyLost e \<Rightarrow> True | Parsed v \<Rightarrow> False | Malformed e \<Rightarrow> False))"

text \<open>A response arrives and its status is outside 200-299.\<close>

definition non_2xx :: "'v fetch_outcome \<Rightarrow> bool" where
  "non_2xx out = (case out of Rejected e \<Rightarrow> False | Responded r \<Rightarrow> \<not> ok r)"

text \<open>A response arrives with a status within 200-299.\<close>

definition is_2xx :: "'v fetch_outcome \<Rightarrow> bool" where
  "is_2xx out = (case out of Rejected e \<Rightarrow> False | Responded r \<Rightarrow> ok r)"

text \<open>A response arrives whose body is read to its end and is not JSON.\<close>

definition body_malformed :: "'v fetch_outcome \<Rightarrow> bool" where
  "body_malformed out =
     (case out of
        Rejected e \<Rightarrow> False
      | Responded r \<Rightarrow> (case json r of Malformed e \<Rightarrow> True | Parsed v \<Rightarrow> False | BodyLost e \<Rightarrow> False))"

text \<open>The JSON payload of a response whose body decodes.\<close>

definition payload :: "'v fetch_outcome \<Rightarrow> 'v option" where
  "payload out =
     (case out of
        Rejected e \<Rightarrow> None
      | Responded r \<Rightarrow> (case json r of Parsed v \<Rightarrow> Some v | Malformed e \<Rightarrow> None | BodyLost e \<Rightarrow> None))"

section \<open>The ResourceCache of the spec (section 4.1)\<close>

text \<open>
  The repository hands caching to \<open>useQuery\<close> of the library @tanstack/react-query
  (src/src/App.js, lines 19-22); the cache itself is not among its sources. The
  definitions of this section follow the contract the spec gives for it, operation by
  operation.
\<close>

text \<open>
  Modelled from the spec: the status of a CacheEntry, "one of idle | loading | success |
  error" (section 3), which is missing from the sources.
\<close>

datatype status = Idle | Loading | Success | Error

text \<open>
  Modelled from the spec: the CacheEntry of section 3, which is missing from the sources.
  \<open>value\<close>, \<open>errorInfo\<close> and \<open>fetchedAt\<close> are unset (\<open>None\<close>) until a fetch sets them;
  timestamps are milliseconds.
\<close>

record ('k, 'v, 'e) CacheEntry =
  key :: 'k
  status :: status
  value' :: "'v option"
  errorInfo :: "'e option"
  fetchedAt :: "int option"

text \<open>Modelled from the spec: the entry map, one entry per key (section 3, invariants).\<close>

type_synonym ('k, 'v, 'e) ResourceCache = "'k \<rightharpoonup> ('k, 'v, 'e) CacheEntry"

text \<open>Modelled from the spec: the entry a first access creates, \<open>idle\<close> and empty.\<close>

definition idleEntry :: "'k \<Rightarrow> ('k, 'v, 'e) CacheEntry" where
  "idleEntry k = \<lparr>key = k, status = Idle, value' = None, errorInfo = None, fetchedAt = None\<rparr>"

text \<open>
  Modelled from the spec: \<open>getOrCreate(key) -> CacheEntry\<close>, which "returns existing entry
  or creates an idle one". The cache with the entry in it is returned as well.
\<close>

definition getOrCreate ::
  "'k \<Rightarrow> ('k, 'v, 'e) ResourceCache \<Rightarrow> ('k, 'v, 'e) CacheEntry \<times> ('k, 'v, 'e) ResourceCache" where
  "getOrCreate k c =
     (case c k of Some e \<Rightarrow> (e, c) | None \<Rightarrow> (idleEntry k, c(k \<mapsto> idleEntry k)))"

text \<open>
  Modelled from the spec: \<open>beginFetch(key)\<close>, which "transitions entry to loading only if
  not already loading; returns whether a new fetch should be started".
\<close>

definition beginFetch :: "'k \<Rightarrow> ('k, 'v, 'e) ResourceCache \<Rightarrow> bool \<times> ('k, 'v, 'e) ResourceCache" where
  "beginFetch k c =
     (case getOrCreate k c of
        (e, c') \<Rightarrow>
          if status e = Loading then (False, c') else (True, c'(k \<mapsto> e\<lparr>status := Loading\<rparr>)))"

text \<open>
  Modelled from the spec: \<open>completeSuccess(key, value, now)\<close>, which "sets status=success,
  value=value, fetchedAt=now, clears errorInfo".
\<close>

definition completeSuccess ::
  "'k \<Rightarrow> 'v \<Rightarrow> int \<Rightarrow> ('k, 'v, 'e) ResourceCache \<Rightarrow> ('k, 'v, 'e) ResourceCache" where
  "completeSuccess k v now c =
     (case getOrCreate k c of
        (e, c') \<Rightarrow>
          c'(k \<mapsto> e\<lparr>status := Success, value' := Some v, fetchedAt := Some now,
                      errorInfo := None\<rparr>))"

text \<open>
  Modelled from the spec: \<open>completeError(key, errorInfo)\<close>, which "sets status=error,
  errorInfo=errorInfo; value untouched".
\<close>

definition completeError ::
  "'k \<Rightarrow> 'e \<Rightarrow> ('k, 'v, 'e) ResourceCache \<Rightarrow> ('k, 'v, 'e) ResourceCache" where
  "completeError k err c =
     (case getOrCreate k c of
        (e, c') \<Rightarrow> c'(k \<mapsto> e\<lparr>status := Error, errorInfo := Some err\<rparr>))"

subsection \<open>Reading a key's fields, and histories of operations\<close>

text \<open>The fields of the entry of a key, unset where the key has no entry.\<close>

definition status_of :: "('k, 'v, 'e) ResourceCache \<Rightarrow> 'k \<Rightarrow> status option" where
  "status_of c k = map_option status (c k)"

definition value_of :: "('k, 'v, 'e) ResourceCache \<Rightarrow> 'k \<Rightarrow> 'v option" where
  "value_of c k = (case c k of None \<Rightarrow> None | Some e \<Rightarrow> value' e)"

definition errorInfo_of :: "('k, 'v, 'e) ResourceCache \<Rightarrow> 'k \<Rightarrow> 'e option" where
  "errorInfo_of c k = (case c k of None \<Rightarrow> None | Some e \<Rightarrow> errorInfo e)"

definition fetchedAt_of :: "('k, 'v, 'e) ResourceCache \<Rightarrow> 'k \<Rightarrow> int option" where
  "fetchedAt_of c k = (case c k of None \<Rightarrow> None | Some e \<Rightarrow> fetchedAt e)"

text \<open>
  The four operations of the contract that change the entry map, as data, so that a
  history of the cache is a list of them.
\<close>

datatype ('k, 'v, 'e) cache_op =
  GetOrCreate 'k | BeginFetch 'k | CompleteSuccess 'k 'v int | CompleteError 'k 'e

fun apply_op :: "('k, 'v, 'e) cache_op \<Rightarrow> ('k, 'v, 'e) ResourceCache \<Rightarrow> ('k, 'v, 'e) ResourceCache" where
  "apply_op (GetOrCreate k) c = snd (getOrCreate k c)"
| "apply_op (BeginFetch k) c = snd (beginFetch k c)"
| "apply_op (CompleteSuccess k v now) c = completeSuccess k v now c"
| "apply_op (CompleteError k err) c = completeError k err c"

fun apply_ops :: "('k, 'v, 'e) cache_op list \<Rightarrow> ('k, 'v, 'e) ResourceCache \<Rightarrow> ('k, 'v, 'e) ResourceCache" where
  "apply_ops [] c = c"
| "apply_ops (x # xs) c = apply_ops xs (apply_op x c)"

text \<open>The operation records a successful fetch for the key.\<close>

fun succeeds_for :: "'k \<Rightarrow> ('k, 'v, 'e) cache_op \<Rightarrow> bool" where
  "succeeds_for k (CompleteSuccess k' v now) = (k' = k)"
| "succeeds_for k (GetOrCreate k') = False"
| "succeeds_for k (BeginFetch k') = False"
| "succeeds_for k (CompleteError k' err) = False"

section \<open>Concrete inputs\<close>

text \<open>A small JSON value type for concrete payloads (numbers as integers).\<close>

datatype json_value =
  JNull | JBool bool | JNum int | JStr string | JArr "json_value list"
  | JObj "(string \<times> json_value) list"

text \<open>The key of the one query of the program, \<open>queryKey: ['catFact']\<close> (line 20).\<close>

definition catFactKey :: "string list" where
  "catFactKey = [''catFact'']"

text \<open>A payload of the endpoint: an object with a \<open>fact\<close> field.\<close>

definition aFact :: json_value where
  "aFact = JObj [(''fact'', JStr ''Cats sleep most of the day.''), (''length'', JNum 27)]"

text \<open>A 200 response whose body is an HTML page, so that \<open>response.json()\<close> rejects.\<close>

definition htmlBody :: "json_value response" where
  "htmlBody = \<lparr>http_status = 200, statusText = ''OK'',
     json = Malformed (JsError ''SyntaxError'' ''Unexpected token < in JSON at position 0'')\<rparr>"

text \<open>A 404 response.\<close>

definition notFound :: "json_value response" where
  "notFound = \<lparr>http_status = 404, statusText = ''Not Found'', json = Parsed JNull\<rparr>"

text \<open>The error \<open>fetchCatFact\<close> throws at line 11.\<close>

definition notOkError :: failure where
  "notOkError = StatusNotOk (JsError ''Error'' ''Failed to fetch cat fact'')"

section \<open>Properties of the Fetcher\<close>

lemma fetchCatFact_result:
  "fst (fetchCatFact net log) =
     (case net (log @ [catFactUrl]) of
        Rejected e \<Rightarrow> Inl (TransportFailed e)
      | Responded r \<Rightarrow>
          if \<not> ok r then Inl (StatusNotOk (JsError ''Error'' ''Failed to fetch cat fact''))
          else (case json r of
                  Parsed v \<Rightarrow> Inr v
                | Malformed e \<Rightarrow> Inl (DecodeFailed e)
                | BodyLost e \<Rightarrow> Inl (TransportFailed e)))"
  by (simp add: fetchCatFact_def fetch_def split: fetch_outcome.split json_result.split)

text \<open>
  Claim C4, as stated: a run fails exactly when the response is non-2xx or the transport
  fails, and otherwise resolves with the JSON payload; there is no other failure. The code
  does not bear this out. With the response \<open>htmlBody\<close> the transport does not fail and the
  status is 200, yet \<open>response.json()\<close> rejects and the run fails with the decoding error,
  a third outcome.
\<close>

theorem fetchCatFact_malformed_body_counterexample:
  "\<not> transport_failed (Responded htmlBody)
   \<and> \<not> non_2xx (Responded htmlBody)
   \<and> fst (fetchCatFact (\<lambda>sent. Responded htmlBody) [])
       = Inl (DecodeFailed (JsError ''SyntaxError'' ''Unexpected token < in JSON at position 0''))"
  by (simp add: transport_failed_def non_2xx_def ok_def htmlBody_def fetchCatFact_def fetch_def)

text \<open>
  Claim C4, amended: a run of \<open>fetchCatFact\<close> fails with a NetworkError exactly when the
  response is non-2xx or the transport fails; it fails with a DecodeError exactly when a
  2xx response arrives whose body is not JSON; and it resolves with a value exactly when a
  2xx response arrives whose body decodes, the value being the decoded payload. These are
  all the outcomes of a run.
\<close>

theorem fetchCatFact_outcomes:
  "((\<exists>f. fst (fetchCatFact net log) = Inl f \<and> kind f = NetworkError)
      \<longleftrightarrow> transport_failed (net (log @ [catFactUrl])) \<or> non_2xx (net (log @ [catFactUrl])))
   \<and> ((\<exists>f. fst (fetchCatFact net log) = Inl f \<and> kind f = DecodeError)
      \<longleftrightarrow> is_2xx (net (log @ [catFactUrl])) \<and> body_malformed (net (log @ [catFactUrl])))
   \<and> ((\<exists>v. fst (fetchCatFact net log) = Inr v)
      \<longleftrightarrow> is_2xx (net (log @ [catFactUrl])) \<and> payload (net (log @ [catFactUrl])) \<noteq> None)
   \<and> (\<forall>v. fst (fetchCatFact net log) = Inr v
      \<longleftrightarrow> is_2xx (net (log @ [catFactUrl])) \<and> payload (net (log @ [catFactUrl])) = Some v)"
  unfolding fetchCatFact_result
  by (auto simp: transport_failed_def non_2xx_def is_2xx_def body_malformed_def payload_def
      split: fetch_outcome.splits json_result.splits)

text \<open>
  Claim C8: the Fetcher retries nothing. Whatever the network answers, and so also when
  the request fails, one run of \<open>fetchCatFact\<close> adds exactly one request to the log of
  requests sent: the one to the cat fact URL.
\<close>

theorem fetchCatFact_one_request:
  "snd (fetchCatFact net log) = log @ [catFactUrl]
   \<and> length (snd (fetchCatFact net log)) = length log + 1"
  by (simp add: fetchCatFact_def fetch_def split: fetch_outcome.split json_result.split)

text \<open>
  Claim C10: for every response with a status outside 200-299, whatever its status code,
  its status text and its body, \<open>fetchCatFact\<close> fails with the same error, whose message is
  the fixed text of line 11.
\<close>

theorem fetchCatFact_not_ok_fixed_message:
  "net (log @ [catFactUrl]) = Responded r \<Longrightarrow> \<not> ok r \<Longrightarrow>
   fst (fetchCatFact net log) = Inl notOkError
   \<and> message (thrown notOkError) = ''Failed to fetch cat fact''"
  by (simp add: fetchCatFact_result notOkError_def)

theorem fetchCatFact_not_ok_fixed_message_witness:
  "\<not> ok notFound
   \<and> fst (fetchCatFact (\<lambda>sent. Responded notFound) []) = Inl notOkError
   \<and> message (thrown notOkError) = ''Failed to fetch cat fact''"
  using fetchCatFact_not_ok_fixed_message [of "\<lambda>sent. Responded notFound" "[]" notFound]
  by (simp add: ok_def notFound_def)

section \<open>Properties of the ResourceCache\<close>

subsection \<open>What one operation changes\<close>

lemma completeError_fields:
  "status_of (completeError k err c) k = Some Error"
  "errorInfo_of (completeError k err c) k = Some err"
  "value_of (completeError k err c) k = value_of c k"
  "fetchedAt_of (completeError k err c) k = fetchedAt_of c k"
  by (auto simp: status_of_def errorInfo_of_def value_of_def fetchedAt_of_def completeError_def
      getOrCreate_def idleEntry_def split: option.splits)

lemma completeSuccess_fields:
  "status_of (completeSuccess k v now c) k = Some Success"
  "value_of (completeSuccess k v now c) k = Some v"
  "fetchedAt_of (completeSuccess k v now c) k = Some now"
  "errorInfo_of (completeSuccess k v now c) k = None"
  by (auto simp: status_of_def errorInfo_of_def value_of_def fetchedAt_of_def completeSuccess_def
      getOrCreate_def idleEntry_def split: option.splits)

lemma beginFetch_fields:
  "errorInfo_of (snd (beginFetch k c)) k = errorInfo_of c k"
  "value_of (snd (beginFetch k c)) k = value_of c k"
  "status_of (snd (beginFetch k c)) k = Some Loading"
  "fst (beginFetch k c) \<longleftrightarrow> status_of c k \<noteq> Some Loading"
  by (auto simp: status_of_def errorInfo_of_def value_of_def beginFetch_def
      getOrCreate_def idleEntry_def split: option.splits)

lemma other_key_unchanged:
  "k' \<noteq> k \<Longrightarrow> completeError k err c k' = c k'"
  "k' \<noteq> k \<Longrightarrow> completeSuccess k v now c k' = c k'"
  "k' \<noteq> k \<Longrightarrow> snd (beginFetch k c) k' = c k'"
  "k' \<noteq> k \<Longrightarrow> snd (getOrCreate k c) k' = c k'"
  by (auto simp: completeError_def completeSuccess_def beginFetch_def getOrCreate_def
      split: option.splits)

subsection \<open>What a history of operations keeps\<close>

lemma apply_op_value_of:
  "\<not> succeeds_for k x \<Longrightarrow> value_of (apply_op x c) k = value_of c k"
  by (cases x)
     (auto simp: value_of_def getOrCreate_def beginFetch_def completeError_def
        completeSuccess_def idleEntry_def split: option.splits)

lemma apply_ops_value_of:
  "\<forall>x \<in> set xs. \<not> succeeds_for k x \<Longrightarrow> value_of (apply_ops xs c) k = value_of c k"
  by (induction xs arbitrary: c) (simp_all add: apply_op_value_of)

lemma apply_op_errorInfo_of:
  "\<not> succeeds_for k x \<Longrightarrow> errorInfo_of c k \<noteq> None \<Longrightarrow> errorInfo_of (apply_op x c) k \<noteq> None"
  by (cases x)
     (auto simp: errorInfo_of_def getOrCreate_def beginFetch_def completeError_def
        completeSuccess_def idleEntry_def split: option.splits)

lemma apply_ops_errorInfo_of:
  "\<forall>x \<in> set xs. \<not> succeeds_for k x \<Longrightarrow> errorInfo_of c k \<noteq> None \<Longrightarrow>
   errorInfo_of (apply_ops xs c) k \<noteq> None"
proof (induction xs arbitrary: c)
  case Nil
  then show ?case by simp
next
  case (Cons x xs)
  from Cons.prems have "errorInfo_of (apply_op x c) k \<noteq> None"
    by (intro apply_op_errorInfo_of) simp_all
  moreover from Cons.prems have "\<forall>y \<in> set xs. \<not> succeeds_for k y"
    by simp
  ultimately have "errorInfo_of (apply_ops xs (apply_op x c)) k \<noteq> None"
    by (rule Cons.IH[rotated])
  then show ?case by simp
qed

text \<open>
  Claim C3: \<open>completeError\<close> sets the key's status to \<open>error\<close> and its errorInfo to the
  failure it is given, and leaves the key's value as it was. More generally the value of a
  key is the same after any history of cache operations in which no \<open>completeSuccess\<close> for
  that key occurs: failures, new fetches and operations on other keys never touch it.
\<close>

theorem completeError_keeps_value:
  "status_of (completeError k err c) k = Some Error
   \<and> errorInfo_of (completeError k err c) k = Some err
   \<and> value_of (completeError k err c) k = value_of c k
   \<and> ((\<forall>x \<in> set xs. \<not> succeeds_for k x) \<longrightarrow> value_of (apply_ops xs c) k = value_of c k)"
  by (simp add: completeError_fields apply_ops_value_of)

theorem completeError_keeps_value_witness:
  "value_of (completeSuccess catFactKey aFact 1000 Map.empty) catFactKey = Some aFact
   \<and> status_of (completeError catFactKey notOkError
        (completeSuccess catFactKey aFact 1000 Map.empty)) catFactKey = Some Error
   \<and> errorInfo_of (completeError catFactKey notOkError
        (completeSuccess catFactKey aFact 1000 Map.empty)) catFactKey = Some notOkError
   \<and> value_of (completeError catFactKey notOkError
        (completeSuccess catFactKey aFact 1000 Map.empty)) catFactKey = Some aFact
   \<and> value_of (apply_ops [BeginFetch catFactKey, CompleteError catFactKey notOkError,
          BeginFetch catFactKey, CompleteSuccess [''dogFact''] JNull 2000]
        (completeSuccess catFactKey aFact 1000 Map.empty)) catFactKey = Some aFact"
  using completeError_keeps_value [of catFactKey notOkError
      "completeSuccess catFactKey aFact 1000 Map.empty"
      "[BeginFetch catFactKey, CompleteError catFactKey notOkError,
        BeginFetch catFactKey, CompleteSuccess [''dogFact''] JNull 2000]"]
  by (simp add: completeSuccess_fields catFactKey_def)

text \<open>
  Claim C6: \<open>completeSuccess(key, value, now)\<close> sets the key's status to \<open>success\<close>, its
  value to the payload and its \<open>fetchedAt\<close> to \<open>now\<close>, and clears its errorInfo. Nothing
  else clears it: \<open>beginFetch\<close>, by which a manual refetch starts, leaves the errorInfo as
  it is, and an errorInfo that is set stays set through any history of cache operations in
  which no \<open>completeSuccess\<close> for that key occurs.
\<close>

theorem completeSuccess_clears_errorInfo:
  "status_of (completeSuccess k v now c) k = Some Success
   \<and> value_of (completeSuccess k v now c) k = Some v
   \<and> fetchedAt_of (completeSuccess k v now c) k = Some now
   \<and> errorInfo_of (completeSuccess k v now c) k = None
   \<and> errorInfo_of (snd (beginFetch k c)) k = errorInfo_of c k
   \<and> (errorInfo_of c k \<noteq> None \<and> (\<forall>x \<in> set xs. \<not> succeeds_for k x)
        \<longrightarrow> errorInfo_of (apply_ops xs c) k \<noteq> None)"
  using apply_ops_errorInfo_of [of xs k c]
  by (simp add: completeSuccess_fields beginFetch_fields)

theorem completeSuccess_clears_errorInfo_witness:
  "errorInfo_of (completeError catFactKey notOkError Map.empty) catFactKey = Some notOkError
   \<and> fst (beginFetch catFactKey (completeError catFactKey notOkError Map.empty))
   \<and> errorInfo_of (snd (beginFetch catFactKey
        (completeError catFactKey notOkError Map.empty))) catFactKey = Some notOkError
   \<and> errorInfo_of (apply_ops [BeginFetch catFactKey]
        (completeError catFactKey notOkError Map.empty)) catFactKey \<noteq> None
   \<and> errorInfo_of (completeSuccess catFactKey aFact 1000 (snd (beginFetch catFactKey
        (completeError catFactKey notOkError Map.empty)))) catFactKey = None
   \<and> value_of (completeSuccess catFactKey aFact 1000 (snd (beginFetch catFactKey
        (completeError catFactKey notOkError Map.empty)))) catFactKey = Some aFact"
  using completeSuccess_clears_errorInfo [of catFactKey aFact 1000
      "snd (beginFetch catFactKey (completeError catFactKey notOkError Map.empty))"
      "[]"]
    completeSuccess_clears_errorInfo [of catFactKey aFact 1000
      "completeError catFactKey notOkError Map.empty" "[BeginFetch catFactKey]"]
  by (simp add: completeError_fields beginFetch_fields)


end
